theory Spec2Isabelle
  imports Complex_Main
begin

section \<open>Values and errors\<close>

text \<open>
  A Python or numpy float is modelled as a real number or the not-a-number value.
  Arithmetic on the finite values is exact real arithmetic: binary rounding, the
  infinities and overflow are outside this model. Every comparison with \<open>NaN\<close>
  is false and every arithmetic operation on \<open>NaN\<close> gives \<open>NaN\<close>, as in IEEE 754.
\<close>

datatype pyfloat = NaN | Fin real

text \<open>
  The exceptions the modelled code can raise. \<open>ZeroDivisionError\<close> stands for the
  failure of the index computation on a degenerate extent (\<open>0 / 0\<close>: a Python float
  raises ZeroDivisionError, a numpy scalar gives nan and \<open>int(nan)\<close> raises
  ValueError).
\<close>

datatype error =
  IndexError | KeyError string | TypeError | ZeroDivisionError | FileNotFoundError | FetchError

fun is_nan :: "pyfloat \<Rightarrow> bool" where
  "is_nan NaN = True"
| "is_nan (Fin _) = False"

fun fsub :: "pyfloat \<Rightarrow> pyfloat \<Rightarrow> pyfloat" where
  "fsub (Fin a) (Fin b) = Fin (a - b)"
| "fsub _ _ = NaN"

fun fmul :: "pyfloat \<Rightarrow> pyfloat \<Rightarrow> pyfloat" where
  "fmul (Fin a) (Fin b) = Fin (a * b)"
| "fmul _ _ = NaN"

fun fle :: "pyfloat \<Rightarrow> pyfloat \<Rightarrow> bool" where
  "fle (Fin a) (Fin b) = (a \<le> b)"
| "fle _ _ = False"

fun flt :: "pyfloat \<Rightarrow> pyfloat \<Rightarrow> bool" where
  "flt (Fin a) (Fin b) = (a < b)"
| "flt _ _ = False"

section \<open>Raster sampling (02_dem_elevation.py, 03_gw_potential.py)\<close>

text \<open>The dict \<open>bounds\<close> built by \<open>fetch_dem_from_usgs\<close>: always these four keys.\<close>

record bounds =
  west :: real
  south :: real
  east :: real
  north :: real

text \<open>A two-dimensional numpy array: its shape and its cells by row and column.\<close>

record ndarray =
  shape0 :: nat
  shape1 :: nat
  cells :: "nat \<Rightarrow> nat \<Rightarrow> pyfloat"

text \<open>Python's \<open>int(x)\<close> on a float truncates towards zero.\<close>

definition py_int :: "real \<Rightarrow> int" where
  "py_int x = (if 0 \<le> x then \<lfloor>x\<rfloor> else \<lceil>x\<rceil>)"

text \<open>\<open>np.clip(x, lo, hi)\<close> is \<open>minimum(maximum(x, lo), hi)\<close>, also when \<open>hi < lo\<close>.\<close>

definition np_clip :: "int \<Rightarrow> int \<Rightarrow> int \<Rightarrow> int" where
  "np_clip x lo hi = min (max x lo) hi"

text \<open>
  An index into an axis of length \<open>n\<close>: \<open>-n \<le> i < n\<close>, a negative index counting
  from the end; anything else raises IndexError.
\<close>

definition axis_index :: "nat \<Rightarrow> int \<Rightarrow> nat option" where
  "axis_index n i =
     (if 0 \<le> i \<and> i < int n then Some (nat i)
      else if - int n \<le> i \<and> i < 0 then Some (nat (i + int n))
      else None)"

definition np_item :: "ndarray \<Rightarrow> int \<Rightarrow> int \<Rightarrow> error + pyfloat" where
  "np_item a r c =
     (case axis_index (shape0 a) r of
        None \<Rightarrow> Inl IndexError
      | Some i \<Rightarrow>
          (case axis_index (shape1 a) c of
             None \<Rightarrow> Inl IndexError
           | Some j \<Rightarrow> Inr (cells a i j)))"

text \<open>
  \<open>get_dem_value\<close> of 03_gw_potential.py. A \<open>NaN\<close> coordinate fails the chained
  comparison and so gives \<open>NaN\<close>.
\<close>

fun get_dem_value :: "pyfloat \<Rightarrow> pyfloat \<Rightarrow> ndarray \<Rightarrow> bounds \<Rightarrow> error + pyfloat" where
  "get_dem_value (Fin lat) (Fin lon) dem b =
     (if \<not> (west b \<le> lon \<and> lon \<le> east b \<and> south b \<le> lat \<and> lat \<le> north b)
      then Inr NaN
      else if east b - west b = 0 \<or> north b - south b = 0 then Inl ZeroDivisionError
      else
        let col = py_int ((lon - west b) / (east b - west b) * real (shape1 dem));
            row = py_int ((north b - lat) / (north b - south b) * real (shape0 dem));
            col = np_clip col 0 (int (shape1 dem) - 1);
            row = np_clip row 0 (int (shape0 dem) - 1)
        in np_item dem row col)"
| "get_dem_value _ _ dem b = Inr NaN"

text \<open>
  \<open>get_value\<close>, the closure inside \<open>get_dem_at_points\<close> of 02_dem_elevation.py; the
  captured variables \<open>dem\<close> and \<open>bounds\<close> are its last two arguments here.
\<close>

fun get_value :: "pyfloat \<Rightarrow> pyfloat \<Rightarrow> ndarray \<Rightarrow> bounds \<Rightarrow> error + pyfloat" where
  "get_value (Fin lat) (Fin lon) dem b =
     (if \<not> (west b \<le> lon \<and> lon \<le> east b \<and> south b \<le> lat \<and> lat \<le> north b)
      then Inr NaN
      else if east b - west b = 0 \<or> north b - south b = 0 then Inl ZeroDivisionError
      else
        let col = py_int ((lon - west b) / (east b - west b) * real (shape1 dem));
            row = py_int ((north b - lat) / (north b - south b) * real (shape0 dem));
            col = np_clip col 0 (int (shape1 dem) - 1);
            row = np_clip row 0 (int (shape0 dem) - 1)
        in np_item dem row col)"
| "get_value _ _ dem b = Inr NaN"

section \<open>Percentile classification (mapservice.py)\<close>

text \<open>Python indexing of a list: a negative index counts from the end.\<close>

definition py_nth :: "'a list \<Rightarrow> int \<Rightarrow> error + 'a" where
  "py_nth xs i =
     (if 0 \<le> i \<and> i < int (length xs) then Inr (xs ! nat i)
      else if - int (length xs) \<le> i \<and> i < 0 then Inr (xs ! nat (i + int (length xs)))
      else Inl IndexError)"

text \<open>The decimal text of a non-negative integer, as an f-string prints it.\<close>

definition digit_char :: "nat \<Rightarrow> char" where
  "digit_char d = ''0123456789'' ! d"

fun str_nat :: "nat \<Rightarrow> string" where
  "str_nat n = (if n < 10 then [digit_char n] else str_nat (n div 10) @ [digit_char (n mod 10)])"

declare str_nat.simps [simp del]

text \<open>
  \<open>dict.get(key)\<close>: \<open>None\<close> for a missing key and for a key stored with \<open>None\<close>
  (a JSON null).
\<close>

definition dict_get :: "('k \<rightharpoonup> 'v option) \<Rightarrow> 'k \<Rightarrow> 'v option" where
  "dict_get d k = (case d k of None \<Rightarrow> None | Some v \<Rightarrow> v)"

definition boundaries :: "(string \<rightharpoonup> pyfloat option) \<Rightarrow> (nat \<times> pyfloat option) list" where
  "boundaries pct_data =
     [(0, dict_get pct_data ''pct_lowest''),
      (10, dict_get pct_data ''pct_10''),
      (25, dict_get pct_data ''pct_25''),
      (50, dict_get pct_data ''pct_50''),
      (75, dict_get pct_data ''pct_75''),
      (90, dict_get pct_data ''pct_90''),
      (100, dict_get pct_data ''pct_highest'')]"

text \<open>\<open>[(p, v) for p, v in boundaries if v is not None]\<close>\<close>

fun valid_of :: "(nat \<times> pyfloat option) list \<Rightarrow> (nat \<times> pyfloat) list" where
  "valid_of [] = []"
| "valid_of ((p, None) # bs) = valid_of bs"
| "valid_of ((p, Some v) # bs) = (p, v) # valid_of bs"

text \<open>
  The loop \<open>for i in range(len(valid) - 1)\<close> over the indices still to visit; it
  returns at the first interval that holds the depth, and \<open>None\<close> when it runs out.
\<close>

fun find_interval :: "pyfloat \<Rightarrow> (nat \<times> pyfloat) list \<Rightarrow> nat list \<Rightarrow> error + (string \<times> nat) option" where
  "find_interval depth valid [] = Inr None"
| "find_interval depth valid (i # rest) =
     (case py_nth valid (int i) of
        Inl e \<Rightarrow> Inl e
      | Inr (p1, v1) \<Rightarrow>
          (case py_nth valid (int i + 1) of
             Inl e \<Rightarrow> Inl e
           | Inr (p2, v2) \<Rightarrow>
               if fle v2 depth \<and> fle depth v1
               then Inr (Some (str_nat p1 @ ''-'' @ str_nat p2, (p1 + p2) div 2))
               else find_interval depth valid rest))"

definition calculate_percentile_class ::
  "pyfloat option \<Rightarrow> (string \<rightharpoonup> pyfloat option) \<Rightarrow> error + (string option \<times> nat option)" where
  "calculate_percentile_class depth pct_data =
     (case depth of
        None \<Rightarrow> Inr (None, None)
      | Some d \<Rightarrow>
          let valid = valid_of (boundaries pct_data) in
          if length valid < 2 then Inr (None, None)
          else
            (case find_interval d valid [0..<length valid - 1] of
               Inl e \<Rightarrow> Inl e
             | Inr (Some (label, rank)) \<Rightarrow> Inr (Some label, Some rank)
             | Inr None \<Rightarrow>
                 (case py_nth valid 0 of
                    Inl e \<Rightarrow> Inl e
                  | Inr (p0, v0) \<Rightarrow>
                      if flt v0 d then Inr (Some (''<'' @ str_nat p0), Some 0)
                      else
                        (case py_nth valid (- 1) of
                           Inl e \<Rightarrow> Inl e
                         | Inr (pl, vl) \<Rightarrow>
                             if flt d vl then Inr (Some (''>'' @ str_nat pl), Some 100)
                             else Inr (None, None)))))"

section \<open>Tables and column inference (03_gw_potential.py)\<close>

text \<open>
  A cell of a table read by \<open>pd.read_csv\<close>: a number (a missing value is \<open>NaN\<close>) or
  a string. A table is its columns in file order, each a name and its cells; the
  columns of one table have the same number of cells.
\<close>

datatype cell = Num pyfloat | Str string

type_synonym dataframe = "(string \<times> cell list) list"

fun isna :: "cell \<Rightarrow> bool" where
  "isna (Num x) = is_nan x"
| "isna (Str _) = False"

text \<open>\<open>str.lower()\<close> on the ASCII letters.\<close>

definition lower_char :: "char \<Rightarrow> char" where
  "lower_char c =
     (case map_of (zip ''ABCDEFGHIJKLMNOPQRSTUVWXYZ'' ''abcdefghijklmnopqrstuvwxyz'') c of
        None \<Rightarrow> c
      | Some l \<Rightarrow> l)"

definition py_lower :: "string \<Rightarrow> string" where
  "py_lower s = map lower_char s"

text \<open>The test \<open>'-' in str(c) and len(str(c)) == 10\<close> on a column name.\<close>

definition date_like :: "string \<Rightarrow> bool" where
  "date_like c \<longleftrightarrow> CHR ''-'' \<in> set c \<and> length c = 10"

text \<open>
  A column has a numeric dtype when \<open>read_csv\<close> found no string in it; a column with no
  cell at all (a file with a header only) has the dtype \<open>object\<close>.
\<close>

fun is_num :: "cell \<Rightarrow> bool" where
  "is_num (Num _) = True"
| "is_num (Str _) = False"

definition numeric_dtype :: "cell list \<Rightarrow> bool" where
  "numeric_dtype cs \<longleftrightarrow> cs \<noteq> [] \<and> list_all is_num cs"

text \<open>
  The block \<open>if depth_col is None: ...\<close> of \<open>calculate_potential\<close> and
  \<open>create_potential_dataset\<close> (the same text in both). \<open>[...][0]\<close> on an empty list
  raises IndexError.
\<close>

definition detect_depth_col :: "dataframe \<Rightarrow> string option \<Rightarrow> string \<Rightarrow> string \<Rightarrow> error + string" where
  "detect_depth_col df depth_col lat_col lon_col =
     (case depth_col of
        Some c \<Rightarrow> Inr c
      | None \<Rightarrow>
          let date_cols = filter date_like (map fst df) in
          if date_cols \<noteq> [] then Inr (last date_cols)
          else
            let numeric_cols = map fst (filter (\<lambda>col. numeric_dtype (snd col)) df);
                exclude = [lat_col, lon_col, ''Site'']
            in (case filter (\<lambda>c. c \<notin> set exclude) numeric_cols of
                  [] \<Rightarrow> Inl IndexError
                | c # _ \<Rightarrow> Inr c))"

section \<open>The potential computation (03_gw_potential.py)\<close>

definition get_column :: "dataframe \<Rightarrow> string \<Rightarrow> error + cell list" where
  "get_column df c = (case map_of df c of None \<Rightarrow> Inl (KeyError c) | Some cs \<Rightarrow> Inr cs)"

text \<open>\<open>df[[lat_col, lon_col, depth_col]]\<close>, as rows.\<close>

definition select3 :: "dataframe \<Rightarrow> string \<Rightarrow> string \<Rightarrow> string \<Rightarrow> error + (cell \<times> cell \<times> cell) list" where
  "select3 df lat_col lon_col depth_col =
     (case get_column df lat_col of
        Inl e \<Rightarrow> Inl e
      | Inr lats \<Rightarrow>
          (case get_column df lon_col of
             Inl e \<Rightarrow> Inl e
           | Inr lons \<Rightarrow>
               (case get_column df depth_col of
                  Inl e \<Rightarrow> Inl e
                | Inr depths \<Rightarrow> Inr (zip lats (zip lons depths)))))"

text \<open>The first \<open>dropna()\<close>: a row with a missing cell goes.\<close>

fun complete3 :: "cell \<times> cell \<times> cell \<Rightarrow> bool" where
  "complete3 (lat, lon, d) \<longleftrightarrow> \<not> isna lat \<and> \<not> isna lon \<and> \<not> isna d"

definition dropna3 :: "(cell \<times> cell \<times> cell) list \<Rightarrow> (cell \<times> cell \<times> cell) list" where
  "dropna3 rows = filter complete3 rows"

text \<open>An operation on every element of a column; the first exception ends it.\<close>

fun traverse :: "('a \<Rightarrow> error + 'b) \<Rightarrow> 'a list \<Rightarrow> error + 'b list" where
  "traverse f [] = Inr []"
| "traverse f (x # xs) =
     (case f x of
        Inl e \<Rightarrow> Inl e
      | Inr y \<Rightarrow> (case traverse f xs of Inl e \<Rightarrow> Inl e | Inr ys \<Rightarrow> Inr (y # ys)))"

text \<open>
  The unit conversion: \<open>Depth_original * 0.3048\<close> when \<open>depth_unit.lower() == 'ft'\<close>,
  the column itself otherwise. A string times a float raises TypeError.
\<close>

fun cell_times :: "real \<Rightarrow> cell \<Rightarrow> error + cell" where
  "cell_times k (Num x) = Inr (Num (fmul x (Fin k)))"
| "cell_times k (Str _) = Inl TypeError"

definition depth_m_column :: "string \<Rightarrow> cell list \<Rightarrow> error + cell list" where
  "depth_m_column depth_unit depth_original =
     (if py_lower depth_unit = ''ft'' then traverse (cell_times (3048 / 10000)) depth_original
      else Inr depth_original)"

text \<open>
  \<open>lambda r: get_dem_value(r['Lat'], r['Lon'], dem, bounds)\<close> on one row. The chained
  comparison reads \<open>lon\<close> first and \<open>lat\<close> only when \<open>lon\<close> is within west and east;
  comparing a float with a string raises TypeError.
\<close>

fun dem_of_row :: "ndarray \<Rightarrow> bounds \<Rightarrow> cell \<times> cell \<times> cell \<Rightarrow> error + pyfloat" where
  "dem_of_row dem b (Num lat, Num lon, d) = get_dem_value lat lon dem b"
| "dem_of_row dem b (Str _, Num (Fin lon), d) =
     (if west b \<le> lon \<and> lon \<le> east b then Inl TypeError else Inr NaN)"
| "dem_of_row dem b (Str _, Num NaN, d) = Inr NaN"
| "dem_of_row dem b (lat, Str _, d) = Inl TypeError"

text \<open>\<open>DEM_m - Depth_m\<close> on one row: a float minus a string raises TypeError.\<close>

fun minus_cell :: "pyfloat \<times> cell \<Rightarrow> error + pyfloat" where
  "minus_cell (e, Num d) = Inr (fsub e d)"
| "minus_cell (e, Str _) = Inl TypeError"

record frame_row =
  Lat :: cell
  Lon :: cell
  Depth_original :: cell
  Depth_m :: cell
  DEM_m :: pyfloat
  Potential_m :: pyfloat

fun make_row :: "(cell \<times> cell \<times> cell) \<times> cell \<times> pyfloat \<times> pyfloat \<Rightarrow> frame_row" where
  "make_row ((lat, lon, d), dm, e, p) =
     \<lparr>Lat = lat, Lon = lon, Depth_original = d, Depth_m = dm, DEM_m = e, Potential_m = p\<rparr>"

text \<open>The second \<open>dropna()\<close>, over all six columns.\<close>

definition row_complete :: "frame_row \<Rightarrow> bool" where
  "row_complete r \<longleftrightarrow>
     \<not> isna (Lat r) \<and> \<not> isna (Lon r) \<and> \<not> isna (Depth_original r) \<and> \<not> isna (Depth_m r) \<and>
     \<not> is_nan (DEM_m r) \<and> \<not> is_nan (Potential_m r)"

text \<open>
  \<open>result_df\<close> from the selection of the three columns to the second \<open>dropna()\<close>:
  lines 161 to 180 of \<open>calculate_potential\<close>, lines 277 to 290 of
  \<open>create_potential_dataset\<close> (the same statements). \<open>apply(..., axis=1)\<close> is the
  row-wise map; on a frame with no row left pandas returns an empty frame instead of an
  empty column and what the assignment then does depends on its version: the model takes
  the empty column.
\<close>

definition potential_frame ::
  "dataframe \<Rightarrow> string \<Rightarrow> string \<Rightarrow> string \<Rightarrow> string \<Rightarrow> ndarray \<Rightarrow> bounds \<Rightarrow> error + frame_row list" where
  "potential_frame df lat_col lon_col depth_col depth_unit dem b =
     (case select3 df lat_col lon_col depth_col of
        Inl e \<Rightarrow> Inl e
      | Inr rows \<Rightarrow>
          let kept = dropna3 rows in
          (case depth_m_column depth_unit (map (\<lambda>r. snd (snd r)) kept) of
             Inl e \<Rightarrow> Inl e
           | Inr depth_m \<Rightarrow>
               (case traverse (dem_of_row dem b) kept of
                  Inl e \<Rightarrow> Inl e
                | Inr dem_m \<Rightarrow>
                    (case traverse minus_cell (zip dem_m depth_m) of
                       Inl e \<Rightarrow> Inl e
                     | Inr potential_m \<Rightarrow>
                         Inr (filter row_complete
                               (map make_row (zip kept (zip depth_m (zip dem_m potential_m)))))))))"

section \<open>Statistics and the response\<close>

text \<open>
  A value of the JSON response: \<open>json.dumps\<close> writes \<open>null\<close> for Python's \<open>None\<close> only;
  a float is written as a number, and a nan float as the token \<open>NaN\<close>.
\<close>

datatype jvalue = JNull | JNumber pyfloat

text \<open>
  \<open>Series.min()\<close>, \<open>max()\<close> and \<open>mean()\<close> of pandas skip the missing values and give
  nan on a series with no value left.
\<close>

fun present :: "pyfloat list \<Rightarrow> real list" where
  "present [] = []"
| "present (NaN # xs) = present xs"
| "present (Fin x # xs) = x # present xs"

definition series_min :: "pyfloat list \<Rightarrow> pyfloat" where
  "series_min s = (case present s of [] \<Rightarrow> NaN | x # xs \<Rightarrow> Fin (fold min xs x))"

definition series_max :: "pyfloat list \<Rightarrow> pyfloat" where
  "series_max s = (case present s of [] \<Rightarrow> NaN | x # xs \<Rightarrow> Fin (fold max xs x))"

definition series_mean :: "pyfloat list \<Rightarrow> pyfloat" where
  "series_mean s =
     (case present s of [] \<Rightarrow> NaN | x # xs \<Rightarrow> Fin (sum_list (x # xs) / real (length (x # xs))))"

text \<open>\<open>round(x, 2)\<close>: to the nearest hundredth, a tie to the even one; nan stays nan.\<close>

definition round_half_even :: "real \<Rightarrow> int" where
  "round_half_even x =
     (let f = \<lfloor>x\<rfloor>; d = x - of_int f
      in if d < 1 / 2 then f else if 1 / 2 < d then f + 1 else if even f then f else f + 1)"

fun py_round2 :: "pyfloat \<Rightarrow> pyfloat" where
  "py_round2 NaN = NaN"
| "py_round2 (Fin x) = Fin (of_int (round_half_even (x * 100)) / 100)"

record stat3 =
  stat_min :: jvalue
  stat_max :: jvalue
  stat_mean :: jvalue

text \<open>
  One entry of \<open>"statistics"\<close> in \<open>calculate_potential\<close> and
  \<open>create_potential_dataset\<close>: \<open>round(col.min(), 2)\<close>, \<open>round(col.max(), 2)\<close>,
  \<open>round(col.mean(), 2)\<close>, with no test of the length.
\<close>

definition column_statistics :: "pyfloat list \<Rightarrow> stat3" where
  "column_statistics col =
     \<lparr>stat_min = JNumber (py_round2 (series_min col)),
      stat_max = JNumber (py_round2 (series_max col)),
      stat_mean = JNumber (py_round2 (series_mean col))\<rparr>"

text \<open>
  \<open>"dem_statistics"\<close> of \<open>get_dem_at_points\<close> in 02_dem_elevation.py, on the column
  \<open>df['DEM_m']\<close>: each entry is \<open>None\<close> when no value is left after \<open>dropna()\<close>.
\<close>

definition dem_statistics :: "pyfloat list \<Rightarrow> stat3" where
  "dem_statistics dem_m =
     (let valid_dem = filter (\<lambda>x. \<not> is_nan x) dem_m in
      \<lparr>stat_min = (if length valid_dem > 0 then JNumber (py_round2 (series_min valid_dem)) else JNull),
       stat_max = (if length valid_dem > 0 then JNumber (py_round2 (series_max valid_dem)) else JNull),
       stat_mean = (if length valid_dem > 0 then JNumber (py_round2 (series_mean valid_dem)) else JNull)\<rparr>)"

text \<open>A column of cells read as floats; \<open>round\<close> of a string raises TypeError.\<close>

fun as_float :: "cell \<Rightarrow> error + pyfloat" where
  "as_float (Num x) = Inr x"
| "as_float (Str _) = Inl TypeError"

record response =
  r_input_csv :: string
  r_depth_column :: string
  r_depth_unit :: "string option"
  r_bbox :: string
  r_total_points :: nat
  r_depth_m :: stat3
  r_dem_m :: stat3
  r_potential_m :: stat3
  r_output_csv :: "string option"

text \<open>What a call leaves behind: the directory made and the CSV file written.\<close>

record 'r effects =
  makedirs :: "string option"
  to_csv :: "(string \<times> 'r list) option"

definition no_effects :: "'r effects" where
  "no_effects = \<lparr>makedirs = None, to_csv = None\<rparr>"

text \<open>
  The collaborators outside the computation: the CSV reader and the elevation
  service (\<open>fetch_dem_from_usgs(bbox, resolution)\<close>), each of which may raise.
\<close>

record world =
  read_csv :: "string \<Rightarrow> error + dataframe"
  fetch_dem_from_usgs :: "string \<Rightarrow> nat \<Rightarrow> error + (ndarray \<times> bounds)"

text \<open>\<open>os.path.join(a, p)\<close> of two POSIX paths.\<close>

definition os_path_join :: "string \<Rightarrow> string \<Rightarrow> string" where
  "os_path_join a p =
     (if p \<noteq> [] \<and> hd p = CHR ''/'' then p
      else if a = [] \<or> last a = CHR ''/'' then a @ p
      else a @ ''/'' @ p)"

text \<open>
  The block \<open>if output_csv: ... else: output_path = None\<close>, with what it writes. \<open>None\<close>
  and the empty string are false in an \<open>if\<close>.
\<close>

definition save_csv :: "string option \<Rightarrow> string option \<Rightarrow> 'r list \<Rightarrow> string option \<times> 'r effects" where
  "save_csv output_csv output_dir result_df =
     (case output_csv of
        None \<Rightarrow> (None, no_effects)
      | Some name \<Rightarrow>
          if name = [] then (None, no_effects)
          else
            (case output_dir of
               None \<Rightarrow> (Some name, \<lparr>makedirs = None, to_csv = Some (name, result_df)\<rparr>)
             | Some dir \<Rightarrow>
                 if dir = [] then (Some name, \<lparr>makedirs = None, to_csv = Some (name, result_df)\<rparr>)
                 else (Some (os_path_join dir name),
                       \<lparr>makedirs = Some dir, to_csv = Some (os_path_join dir name, result_df)\<rparr>)))"

text \<open>The three entries of \<open>"statistics"\<close> over \<open>result_df\<close>.\<close>

definition frame_statistics :: "frame_row list \<Rightarrow> error + stat3 \<times> stat3 \<times> stat3" where
  "frame_statistics result_df =
     (case traverse as_float (map Depth_m result_df) of
        Inl e \<Rightarrow> Inl e
      | Inr depth_m \<Rightarrow>
          Inr (column_statistics depth_m,
               column_statistics (map DEM_m result_df),
               column_statistics (map Potential_m result_df)))"

section \<open>The two entry points (03_gw_potential.py)\<close>

text \<open>
  Both wrap their body in \<open>try: ... except Exception as e: return
  json.dumps({"error": str(e)})\<close>: the result \<open>Inl e\<close>. The steps run in the order of
  the source: read the CSV, find the depth column, fetch the raster, compute
  \<open>result_df\<close>, save, build the response.
\<close>

definition calculate_potential ::
  "world \<Rightarrow> string \<Rightarrow> string \<Rightarrow> string option \<Rightarrow> string \<Rightarrow> string \<Rightarrow> string \<Rightarrow>
   string option \<Rightarrow> string option \<Rightarrow> (error + response) \<times> frame_row effects" where
  "calculate_potential w depth_csv bbox depth_col depth_unit lat_col lon_col output_csv output_dir =
     (case read_csv w depth_csv of
        Inl e \<Rightarrow> (Inl e, no_effects)
      | Inr df \<Rightarrow>
     (case detect_depth_col df depth_col lat_col lon_col of
        Inl e \<Rightarrow> (Inl e, no_effects)
      | Inr dcol \<Rightarrow>
     (case fetch_dem_from_usgs w bbox 500 of
        Inl e \<Rightarrow> (Inl e, no_effects)
      | Inr (dem, b) \<Rightarrow>
     (case potential_frame df lat_col lon_col dcol depth_unit dem b of
        Inl e \<Rightarrow> (Inl e, no_effects)
      | Inr result_df \<Rightarrow>
          let (output_path, eff) = save_csv output_csv output_dir result_df in
          (case frame_statistics result_df of
             Inl e \<Rightarrow> (Inl e, eff)
           | Inr (sd, se, sp) \<Rightarrow>
               (Inr \<lparr>r_input_csv = depth_csv, r_depth_column = dcol,
                     r_depth_unit = Some depth_unit, r_bbox = bbox,
                     r_total_points = length result_df,
                     r_depth_m = sd, r_dem_m = se, r_potential_m = sp,
                     r_output_csv = output_path\<rparr>, eff))))))"

text \<open>The rows \<open>create_potential_dataset\<close> keeps: its last selection of five columns.\<close>

record potential_record =
  p_Lat :: cell
  p_Lon :: cell
  p_Depth_m :: cell
  p_DEM_m :: pyfloat
  p_Potential_m :: pyfloat

definition final_columns :: "frame_row \<Rightarrow> potential_record" where
  "final_columns r =
     \<lparr>p_Lat = Lat r, p_Lon = Lon r, p_Depth_m = Depth_m r, p_DEM_m = DEM_m r,
      p_Potential_m = Potential_m r\<rparr>"

definition create_potential_dataset ::
  "world \<Rightarrow> string \<Rightarrow> string \<Rightarrow> string option \<Rightarrow> string \<Rightarrow> string \<Rightarrow> string \<Rightarrow> nat \<Rightarrow>
   string option \<Rightarrow> string option \<Rightarrow> (error + response) \<times> potential_record effects" where
  "create_potential_dataset w depth_csv bbox depth_col depth_unit lat_col lon_col resolution
     output_csv output_dir =
     (case read_csv w depth_csv of
        Inl e \<Rightarrow> (Inl e, no_effects)
      | Inr df \<Rightarrow>
     (case detect_depth_col df depth_col lat_col lon_col of
        Inl e \<Rightarrow> (Inl e, no_effects)
      | Inr dcol \<Rightarrow>
     (case fetch_dem_from_usgs w bbox resolution of
        Inl e \<Rightarrow> (Inl e, no_effects)
      | Inr (dem, b) \<Rightarrow>
     (case potential_frame df lat_col lon_col dcol depth_unit dem b of
        Inl e \<Rightarrow> (Inl e, no_effects)
      | Inr result_df \<Rightarrow>
          let (output_path, eff) = save_csv output_csv output_dir (map final_columns result_df) in
          (case frame_statistics result_df of
             Inl e \<Rightarrow> (Inl e, eff)
           | Inr (sd, se, sp) \<Rightarrow>
               (Inr \<lparr>r_input_csv = depth_csv, r_depth_column = dcol,
                     r_depth_unit = None, r_bbox = bbox,
                     r_total_points = length result_df,
                     r_depth_m = sd, r_dem_m = se, r_potential_m = sp,
                     r_output_csv = output_path\<rparr>, eff))))))"

section \<open>Notions used to state the properties\<close>

text \<open>
  The depth lies in the interval of the adjacent anchors \<open>i\<close> and \<open>i + 1\<close> of \<open>valid\<close>:
  the test \<open>v2 <= depth <= v1\<close> of the loop.
\<close>

definition in_interval :: "pyfloat \<Rightarrow> (nat \<times> pyfloat) list \<Rightarrow> nat \<Rightarrow> bool" where
  "in_interval d valid i \<longleftrightarrow> fle (snd (valid ! Suc i)) d \<and> fle d (snd (valid ! i))"

text \<open>The label and the rank estimate returned for the interval \<open>i\<close>.\<close>

definition interval_label :: "(nat \<times> pyfloat) list \<Rightarrow> nat \<Rightarrow> string \<times> nat" where
  "interval_label valid i =
     (str_nat (fst (valid ! i)) @ ''-'' @ str_nat (fst (valid ! Suc i)),
      (fst (valid ! i) + fst (valid ! Suc i)) div 2)"

text \<open>The anchor values do not increase with the rank (the invariant of a boundary table).\<close>

fun non_increasing :: "(nat \<times> pyfloat) list \<Rightarrow> bool" where
  "non_increasing (a # b # rest) \<longleftrightarrow> fle (snd b) (snd a) \<and> non_increasing (b # rest)"
| "non_increasing _ = True"

text \<open>
  What decides the fate of a row of the three selected columns: it has no missing cell
  and its elevation sample is a number.
\<close>

definition survives :: "ndarray \<Rightarrow> bounds \<Rightarrow> cell \<times> cell \<times> cell \<Rightarrow> bool" where
  "survives dem b row \<longleftrightarrow>
     complete3 row \<and> (case dem_of_row dem b row of Inl e \<Rightarrow> False | Inr v \<Rightarrow> \<not> is_nan v)"



section \<open>Concrete inputs\<close>

text \<open>A raster of two rows and two columns over the square from (0, 0) to (2, 2).\<close>

definition box2 :: bounds where
  "box2 = \<lparr>west = 0, south = 0, east = 2, north = 2\<rparr>"

definition grid2x2 :: ndarray where
  "grid2x2 = \<lparr>shape0 = 2, shape1 = 2, cells = (\<lambda>r c. Fin (real (2 * r + c)))\<rparr>"

text \<open>The boundary table \<open>{0:40, 10:25, 25:18, 50:12, 75:8, 90:5, 100:2}\<close>.\<close>

definition example_boundary :: "string \<rightharpoonup> pyfloat option" where
  "example_boundary =
     [''pct_lowest'' \<mapsto> Some (Fin 40), ''pct_10'' \<mapsto> Some (Fin 25),
      ''pct_25'' \<mapsto> Some (Fin 18), ''pct_50'' \<mapsto> Some (Fin 12),
      ''pct_75'' \<mapsto> Some (Fin 8), ''pct_90'' \<mapsto> Some (Fin 5),
      ''pct_highest'' \<mapsto> Some (Fin 2)]"

text \<open>A table whose values are not monotonic: \<open>{0:10, 10:50, 25:5}\<close>.\<close>

definition crossed_boundary :: "string \<rightharpoonup> pyfloat option" where
  "crossed_boundary =
     [''pct_lowest'' \<mapsto> Some (Fin 10), ''pct_10'' \<mapsto> Some (Fin 50),
      ''pct_25'' \<mapsto> Some (Fin 5)]"

text \<open>A table with one anchor only.\<close>

definition single_boundary :: "string \<rightharpoonup> pyfloat option" where
  "single_boundary = [''pct_50'' \<mapsto> Some (Fin 12), ''pct_75'' \<mapsto> None]"

text \<open>
  A table of four wells with two dated depth columns. The second well lies outside the
  raster, the third has no reading on the later date.
\<close>

definition wells :: dataframe where
  "wells =
     [(''Lat'', [Num (Fin (1 / 2)), Num (Fin 50), Num (Fin (3 / 2)), Num (Fin (3 / 2))]),
      (''Lon'', [Num (Fin (3 / 2)), Num (Fin 50), Num (Fin (1 / 2)), Num (Fin (1 / 2))]),
      (''Site'', [Num (Fin 1), Num (Fin 2), Num (Fin 3), Num (Fin 4)]),
      (''2023-01-15'', [Num (Fin 90), Num (Fin 80), Num (Fin 70), Num (Fin 20)]),
      (''2023-06-20'', [Num (Fin 100), Num (Fin 80), Num NaN, Num (Fin 10)])]"

text \<open>The same kind of table with the later date in the earlier column.\<close>

definition wells_unordered :: dataframe where
  "wells_unordered =
     [(''Lat'', [Num (Fin (1 / 2))]),
      (''Lon'', [Num (Fin (3 / 2))]),
      (''Site'', [Num (Fin 1)]),
      (''2023-06-20'', [Num (Fin 100)]),
      (''2023-01-15'', [Num (Fin 90)])]"

text \<open>A table with no dated column and no numeric column but the reserved ones.\<close>

definition wells_no_depth :: dataframe where
  "wells_no_depth =
     [(''Lat'', [Num (Fin (1 / 2))]),
      (''Lon'', [Num (Fin (3 / 2))]),
      (''Site'', [Num (Fin 1)]),
      (''Name'', [Str ''north well''])]"

text \<open>A table whose only well lies outside the raster.\<close>

definition wells_outside :: dataframe where
  "wells_outside =
     [(''Lat'', [Num (Fin 50)]),
      (''Lon'', [Num (Fin 50)]),
      (''WaterLevel'', [Num (Fin 10)])]"

text \<open>A world with these four files, whose elevation service returns the small raster.\<close>

definition demo_world :: world where
  "demo_world =
     \<lparr>read_csv = (\<lambda>path.
        if path = ''wells.csv'' then Inr wells
        else if path = ''unordered.csv'' then Inr wells_unordered
        else if path = ''no_depth.csv'' then Inr wells_no_depth
        else if path = ''outside.csv'' then Inr wells_outside
        else Inl FileNotFoundError),
      fetch_dem_from_usgs = (\<lambda>bbox resolution. Inr (grid2x2, box2))\<rparr>"



section \<open>Raster sampling: properties\<close>




lemma np_clip_id: "0 \<le> x \<Longrightarrow> x < int n \<Longrightarrow> np_clip x 0 (int n - 1) = x"
  by (simp add: np_clip_def)







text \<open>
  C10. \<open>get_value\<close> of 02_dem_elevation.py and \<open>get_dem_value\<close> of 03_gw_potential.py
  return the same result (the same cell, the same \<open>NaN\<close> or the same exception) on
  every raster, every bounds and every point.
\<close>

theorem get_value_same: "get_value lat lon dem b = get_dem_value lat lon dem b"
  by (cases lat; cases lon) simp_all

section \<open>Percentile classification: properties\<close>

lemma py_nth_nat: "i < length xs \<Longrightarrow> py_nth xs (int i) = Inr (xs ! i)"
  by (simp add: py_nth_def)

lemma py_nth_Suc: "Suc i < length xs \<Longrightarrow> py_nth xs (int i + 1) = Inr (xs ! Suc i)"
  using py_nth_nat[of "Suc i" xs] by (simp add: add.commute)

lemma py_nth_first: "xs \<noteq> [] \<Longrightarrow> py_nth xs 0 = Inr (xs ! 0)"
  using py_nth_nat[of 0 xs] by simp

lemma py_nth_last: "xs \<noteq> [] \<Longrightarrow> py_nth xs (- 1) = Inr (last xs)"
proof -
  assume ne: "xs \<noteq> []"
  then have l: "1 \<le> length xs" by (cases xs) simp_all
  then have "nat (- 1 + int (length xs)) = length xs - 1" by simp
  then show ?thesis using ne l by (simp add: py_nth_def last_conv_nth)
qed

lemma find_interval_step:
  assumes "Suc i < length valid"
  shows "find_interval d valid (i # rest) =
     (if in_interval d valid i then Inr (Some (interval_label valid i))
      else find_interval d valid rest)"
proof -
  have a: "py_nth valid (int i) = Inr (valid ! i)" using assms by (simp add: py_nth_nat)
  have b: "py_nth valid (int i + 1) = Inr (valid ! Suc i)" using assms by (rule py_nth_Suc)
  show ?thesis
    by (simp add: a b in_interval_def interval_label_def split: prod.split)
qed

lemma find_interval_none:
  "list_all (\<lambda>i. Suc i < length valid \<and> \<not> in_interval d valid i) is \<Longrightarrow>
   find_interval d valid is = Inr None"
  by (induction "is") (simp_all add: find_interval_step del: find_interval.simps(2))

lemma find_interval_first:
  assumes "list_all (\<lambda>j. Suc j < length valid \<and> \<not> in_interval d valid j) pre"
    and "Suc i < length valid" "in_interval d valid i"
  shows "find_interval d valid (pre @ i # post) = Inr (Some (interval_label valid i))"
  using assms by (induction pre) (simp_all add: find_interval_step del: find_interval.simps(2))

lemma find_interval_total:
  "list_all (\<lambda>i. Suc i < length valid) is \<Longrightarrow> \<exists>r. find_interval d valid is = Inr r"
  by (induction "is") (simp_all add: find_interval_step del: find_interval.simps(2))

lemma range_in_valid: "list_all (\<lambda>i. Suc i < length valid) [0..<length valid - 1]"
  by (auto simp add: list_all_iff)

lemma classify_total: "\<exists>r. calculate_percentile_class depth pct_data = Inr r"
proof (cases depth)
  case None
  then show ?thesis by (simp add: calculate_percentile_class_def)
next
  case (Some d)
  let ?valid = "valid_of (boundaries pct_data)"
  show ?thesis
  proof (cases "length ?valid < 2")
    case True
    with Some show ?thesis by (simp add: calculate_percentile_class_def)
  next
    case False
    then have ne: "?valid \<noteq> []" by auto
    obtain r where r: "find_interval d ?valid [0..<length ?valid - 1] = Inr r"
      using find_interval_total[OF range_in_valid] by blast
    show ?thesis
      using Some False r
      by (simp add: calculate_percentile_class_def Let_def py_nth_first[OF ne] py_nth_last[OF ne]
          split: option.split prod.split)
  qed
qed

lemma classify_few: "length (valid_of (boundaries pct_data)) < 2 \<Longrightarrow>
  calculate_percentile_class depth pct_data = Inr (None, None)"
  by (simp add: calculate_percentile_class_def split: option.split)

lemma classify_no_match:
  assumes "2 \<le> length valid" "valid = valid_of (boundaries pct_data)"
    and "\<forall>i. Suc i < length valid \<longrightarrow> \<not> in_interval d valid i"
  shows "calculate_percentile_class (Some d) pct_data =
     (if flt (snd (valid ! 0)) d then Inr (Some (''<'' @ str_nat (fst (valid ! 0))), Some 0)
      else if flt d (snd (last valid)) then Inr (Some (''>'' @ str_nat (fst (last valid))), Some 100)
      else Inr (None, None))"
proof -
  have ne: "valid \<noteq> []" using assms(1) by auto
  have "list_all (\<lambda>i. Suc i < length valid \<and> \<not> in_interval d valid i) [0..<length valid - 1]"
    using assms(3) by (auto simp add: list_all_iff)
  then have f: "find_interval d valid [0..<length valid - 1] = Inr None"
    by (rule find_interval_none)
  have l: "\<not> length valid < 2" using assms(1) by simp
  show ?thesis
    using l f unfolding assms(2)[symmetric] calculate_percentile_class_def
    by (simp add: Let_def assms(2)[symmetric] py_nth_first[OF ne] py_nth_last[OF ne] split: prod.split)
qed

lemma classify_first_match:
  assumes "valid = valid_of (boundaries pct_data)"
    and "Suc i < length valid" "in_interval d valid i"
    and "\<forall>j<i. \<not> in_interval d valid j"
  shows "calculate_percentile_class (Some d) pct_data =
     Inr (Some (fst (interval_label valid i)), Some (snd (interval_label valid i)))"
proof -
  have l: "\<not> length valid < 2" using assms(2) by simp
  have split: "[0..<length valid - 1] = [0..<i] @ i # [Suc i..<length valid - 1]"
  proof -
    have i: "i < length valid - 1" using assms(2) by simp
    have "[0..<length valid - 1] = [0..<i] @ [i..<length valid - 1]"
      using i by (metis le_add_diff_inverse less_imp_le_nat upt_add_eq_append zero_le)
    also have "[i..<length valid - 1] = i # [Suc i..<length valid - 1]"
      using i by (rule upt_conv_Cons)
    finally show ?thesis .
  qed
  have pre: "list_all (\<lambda>j. Suc j < length valid \<and> \<not> in_interval d valid j) [0..<i]"
    using assms(2,4) by (auto simp add: list_all_iff)
  have f: "find_interval d valid [0..<length valid - 1] = Inr (Some (interval_label valid i))"
    unfolding split using pre assms(2,3) by (rule find_interval_first)
  show ?thesis
    using l f unfolding calculate_percentile_class_def
    by (simp add: Let_def assms(1)[symmetric] split: prod.split)
qed

lemma fle_trans: "fle a b \<Longrightarrow> fle b c \<Longrightarrow> fle a c"
  by (cases a; cases b; cases c) simp_all

lemma flt_fle_trans: "flt a b \<Longrightarrow> fle b c \<Longrightarrow> flt a c"
  by (cases a; cases b; cases c) simp_all

lemma fle_flt_trans: "fle a b \<Longrightarrow> flt b c \<Longrightarrow> flt a c"
  by (cases a; cases b; cases c) simp_all

lemma flt_not_fle: "flt a b \<Longrightarrow> \<not> fle b a"
  by (cases a; cases b) simp_all

lemma flt_not_flt: "flt a b \<Longrightarrow> \<not> flt b a"
  by (cases a; cases b) simp_all

lemma fle_refl_left: "fle a b \<Longrightarrow> fle a a"
  by (cases a; cases b) simp_all

lemma non_increasing_head:
  "non_increasing (a # xs) \<Longrightarrow> x \<in> set xs \<Longrightarrow> fle (snd x) (snd a)"
proof (induction xs arbitrary: a)
  case Nil
  then show ?case by simp
next
  case (Cons b xs)
  show ?case
  proof (cases "x = b")
    case True
    with Cons.prems show ?thesis by simp
  next
    case False
    with Cons.prems have "x \<in> set xs" by simp
    moreover have "non_increasing (b # xs)" using Cons.prems by simp
    ultimately have "fle (snd x) (snd b)" by (rule Cons.IH[rotated])
    moreover have "fle (snd b) (snd a)" using Cons.prems by simp
    ultimately show ?thesis by (rule fle_trans)
  qed
qed

lemma non_increasing_last:
  "non_increasing xs \<Longrightarrow> 2 \<le> length xs \<Longrightarrow> i < length xs - 1 \<Longrightarrow> fle (snd (last xs)) (snd (xs ! i))"
proof (induction xs arbitrary: i rule: non_increasing.induct)
  case (1 a b rest)
  show ?case
  proof (cases rest)
    case Nil
    with 1 show ?thesis by simp
  next
    case (Cons c rest')
    have ni: "non_increasing (b # rest)" using "1.prems" by simp
    have lb: "fle (snd (last (b # rest))) (snd b)"
      using non_increasing_head[OF ni, of "last (b # rest)"] Cons by simp
    show ?thesis
    proof (cases i)
      case 0
      have "fle (snd b) (snd a)" using "1.prems" by simp
      with lb have "fle (snd (last (b # rest))) (snd a)" by (rule fle_trans)
      with 0 show ?thesis by simp
    next
      case (Suc k)
      have "fle (snd (last (b # rest))) (snd ((b # rest) ! k))"
        using "1.IH"[OF ni, of k] "1.prems" Suc Cons by simp
      with Suc show ?thesis by simp
    qed
  qed
qed simp_all

lemma above_first_no_interval:
  assumes "non_increasing valid" "flt (snd (valid ! 0)) d" "Suc i < length valid"
  shows "\<not> in_interval d valid i"
proof
  assume "in_interval d valid i"
  then have di: "fle d (snd (valid ! i))" by (simp add: in_interval_def)
  have "fle (snd (valid ! i)) (snd (valid ! 0)) \<or> i = 0"
  proof (cases valid)
    case Nil
    with assms(3) show ?thesis by simp
  next
    case (Cons a xs)
    show ?thesis
    proof (cases i)
      case 0
      then show ?thesis by simp
    next
      case (Suc k)
      then have "valid ! i \<in> set xs" using Cons assms(3) by simp
      then show ?thesis using non_increasing_head[of a xs "valid ! i"] assms(1) Cons by simp
    qed
  qed
  then have "fle d (snd (valid ! 0))" using di fle_trans by blast
  with assms(2) show False using flt_not_fle by blast
qed

lemma below_last_no_interval:
  assumes "non_increasing valid" "flt d (snd (last valid))" "Suc i < length valid"
  shows "\<not> in_interval d valid i"
proof
  assume "in_interval d valid i"
  then have di: "fle (snd (valid ! Suc i)) d" by (simp add: in_interval_def)
  have "fle (snd (last valid)) (snd (valid ! Suc i))"
  proof (cases "Suc i = length valid - 1")
    case True
    moreover have "valid \<noteq> []" using assms(3) by auto
    ultimately have "valid ! Suc i = last valid" by (simp add: last_conv_nth)
    then show ?thesis using di fle_refl_left by simp
  next
    case False
    then have "Suc i < length valid - 1" using assms(3) by simp
    then show ?thesis using non_increasing_last[OF assms(1), of "Suc i"] assms(3) by simp
  qed
  then have "fle (snd (last valid)) d" using di fle_trans by blast
  with assms(2) show False using flt_not_fle by blast
qed

lemma below_last_not_above_first:
  assumes "non_increasing valid" "flt d (snd (last valid))" "2 \<le> length valid"
  shows "\<not> flt (snd (valid ! 0)) d"
proof
  assume a: "flt (snd (valid ! 0)) d"
  have "fle (snd (last valid)) (snd (valid ! 0))"
    using non_increasing_last[OF assms(1) assms(3), of 0] assms(3) by simp
  with assms(2) have "flt d (snd (valid ! 0))" by (rule flt_fle_trans)
  with a show False using flt_not_flt by blast
qed

lemma example_valid:
  "valid_of (boundaries example_boundary) =
     [(0, Fin 40), (10, Fin 25), (25, Fin 18), (50, Fin 12), (75, Fin 8), (90, Fin 5), (100, Fin 2)]"
  by (simp add: boundaries_def example_boundary_def dict_get_def)

lemma crossed_valid:
  "valid_of (boundaries crossed_boundary) = [(0, Fin 10), (10, Fin 50), (25, Fin 5)]"
  by (simp add: boundaries_def crossed_boundary_def dict_get_def)

lemma single_valid:
  "valid_of (boundaries single_boundary) = [(50, Fin 12)]"
  by (simp add: boundaries_def single_boundary_def dict_get_def)

text \<open>
  C4, as amended. For a table with at least two non-null anchors and a non-null depth,
  \<open>calculate_percentile_class\<close> returns the first adjacent pair of anchors (the lowest
  \<open>i\<close>) whose interval holds the depth, with the label \<open>"{rank_i}-{rank_{i+1}}"\<close> and
  the rank estimate \<open>(rank_i + rank_{i+1}) div 2\<close>: a depth equal to an anchor shared by two
  intervals gets the interval of lower rank. When no interval holds the depth, a depth
  above the first anchor's value gives \<open>"<{rank_0}"\<close> and 0, and otherwise a depth below
  the last anchor's value gives \<open>">{rank_last}"\<close> and 100. When the anchor values do not
  increase with the rank, no interval holds a depth above the first or below the last
  anchor's value, so both edge results are returned there.
\<close>

theorem classify_first_interval:
  assumes "valid = valid_of (boundaries pct_data)" "2 \<le> length valid"
  shows
    "(\<forall>i. Suc i < length valid \<and> in_interval d valid i \<and> (\<forall>j<i. \<not> in_interval d valid j) \<longrightarrow>
        calculate_percentile_class (Some d) pct_data =
          Inr (Some (str_nat (fst (valid ! i)) @ ''-'' @ str_nat (fst (valid ! Suc i))),
               Some ((fst (valid ! i) + fst (valid ! Suc i)) div 2))) \<and>
     ((\<forall>i. Suc i < length valid \<longrightarrow> \<not> in_interval d valid i) \<and> flt (snd (valid ! 0)) d \<longrightarrow>
        calculate_percentile_class (Some d) pct_data =
          Inr (Some (''<'' @ str_nat (fst (valid ! 0))), Some 0)) \<and>
     ((\<forall>i. Suc i < length valid \<longrightarrow> \<not> in_interval d valid i) \<and> \<not> flt (snd (valid ! 0)) d \<and>
      flt d (snd (last valid)) \<longrightarrow>
        calculate_percentile_class (Some d) pct_data =
          Inr (Some (''>'' @ str_nat (fst (last valid))), Some 100)) \<and>
     (non_increasing valid \<and> flt (snd (valid ! 0)) d \<longrightarrow>
        calculate_percentile_class (Some d) pct_data =
          Inr (Some (''<'' @ str_nat (fst (valid ! 0))), Some 0)) \<and>
     (non_increasing valid \<and> flt d (snd (last valid)) \<longrightarrow>
        calculate_percentile_class (Some d) pct_data =
          Inr (Some (''>'' @ str_nat (fst (last valid))), Some 100))"
proof (intro conjI allI impI)
  fix i
  assume "Suc i < length valid \<and> in_interval d valid i \<and> (\<forall>j<i. \<not> in_interval d valid j)"
  then show "calculate_percentile_class (Some d) pct_data =
          Inr (Some (str_nat (fst (valid ! i)) @ ''-'' @ str_nat (fst (valid ! Suc i))),
               Some ((fst (valid ! i) + fst (valid ! Suc i)) div 2))"
    using classify_first_match[OF assms(1), of i d] by (simp add: interval_label_def)
next
  assume "(\<forall>i. Suc i < length valid \<longrightarrow> \<not> in_interval d valid i) \<and> flt (snd (valid ! 0)) d"
  then show "calculate_percentile_class (Some d) pct_data =
          Inr (Some (''<'' @ str_nat (fst (valid ! 0))), Some 0)"
    using classify_no_match[OF assms(2) assms(1), of d] by simp
next
  assume "(\<forall>i. Suc i < length valid \<longrightarrow> \<not> in_interval d valid i) \<and> \<not> flt (snd (valid ! 0)) d \<and>
      flt d (snd (last valid))"
  then show "calculate_percentile_class (Some d) pct_data =
          Inr (Some (''>'' @ str_nat (fst (last valid))), Some 100)"
    using classify_no_match[OF assms(2) assms(1), of d] by simp
next
  assume a: "non_increasing valid \<and> flt (snd (valid ! 0)) d"
  then have "\<forall>i. Suc i < length valid \<longrightarrow> \<not> in_interval d valid i"
    using above_first_no_interval by blast
  with a show "calculate_percentile_class (Some d) pct_data =
          Inr (Some (''<'' @ str_nat (fst (valid ! 0))), Some 0)"
    using classify_no_match[OF assms(2) assms(1), of d] by simp
next
  assume a: "non_increasing valid \<and> flt d (snd (last valid))"
  then have "\<forall>i. Suc i < length valid \<longrightarrow> \<not> in_interval d valid i"
    using below_last_no_interval by blast
  moreover have "\<not> flt (snd (valid ! 0)) d"
    using a below_last_not_above_first assms(2) by blast
  ultimately show "calculate_percentile_class (Some d) pct_data =
          Inr (Some (''>'' @ str_nat (fst (last valid))), Some 100)"
    using a classify_no_match[OF assms(2) assms(1), of d] by simp
qed

theorem classify_first_interval_witness:
  "calculate_percentile_class (Some (Fin 15)) example_boundary = Inr (Some ''25-50'', Some 37) \<and>
   calculate_percentile_class (Some (Fin 25)) example_boundary = Inr (Some ''0-10'', Some 5) \<and>
   calculate_percentile_class (Some (Fin 45)) example_boundary = Inr (Some ''<0'', Some 0) \<and>
   calculate_percentile_class (Some (Fin 1)) example_boundary = Inr (Some ''>100'', Some 100)"
proof -
  note v = example_valid[symmetric]
  have l: "2 \<le> length [(0::nat, Fin 40), (10, Fin 25), (25, Fin 18), (50, Fin 12), (75, Fin 8), (90, Fin 5), (100, Fin 2)]"
    by simp
  note t = classify_first_interval[OF v l]
  have two: "\<And>P. (\<forall>j<2::nat. P j) = (P 0 \<and> P 1)"
    by (auto simp add: less_2_cases_iff)
  have a: "calculate_percentile_class (Some (Fin 15)) example_boundary = Inr (Some ''25-50'', Some 37)"
    using t[of "Fin 15", THEN conjunct1, rule_format, of 2]
    by (simp add: in_interval_def two str_nat.simps digit_char_def)
  have b: "calculate_percentile_class (Some (Fin 25)) example_boundary = Inr (Some ''0-10'', Some 5)"
    using t[of "Fin 25", THEN conjunct1, rule_format, of 0]
    by (simp add: in_interval_def str_nat.simps digit_char_def)
  have c: "calculate_percentile_class (Some (Fin 45)) example_boundary = Inr (Some ''<0'', Some 0)"
    using t[of "Fin 45", THEN conjunct2, THEN conjunct2, THEN conjunct2, THEN conjunct1]
    by (simp add: str_nat.simps digit_char_def)
  have d: "calculate_percentile_class (Some (Fin 1)) example_boundary = Inr (Some ''>100'', Some 100)"
    using t[of "Fin 1", THEN conjunct2, THEN conjunct2, THEN conjunct2, THEN conjunct2]
    by (simp add: str_nat.simps digit_char_def)
  from a b c d show ?thesis by blast
qed

text \<open>
  The claim C4 as stated fails. In the table \<open>{0:40, 10:25, 25:18, ...}\<close> the depth 25 lies
  between the anchors of rank 10 and rank 25, and the result is \<open>"0-10"\<close> with 5, not
  \<open>"10-25"\<close> with 17. In the table \<open>{0:10, 10:50, 25:5}\<close> the depth 20 exceeds the first
  anchor's value, and the result is \<open>"10-25"\<close> with 17, not \<open>"<0"\<close> with 0.
\<close>

theorem classify_shared_anchor_counterexample:
  "in_interval (Fin 25) (valid_of (boundaries example_boundary)) 1 \<and>
   valid_of (boundaries example_boundary) ! 1 = (10, Fin 25) \<and>
   valid_of (boundaries example_boundary) ! 2 = (25, Fin 18) \<and>
   calculate_percentile_class (Some (Fin 25)) example_boundary = Inr (Some ''0-10'', Some 5) \<and>
   calculate_percentile_class (Some (Fin 25)) example_boundary \<noteq> Inr (Some ''10-25'', Some 17) \<and>
   2 \<le> length (valid_of (boundaries crossed_boundary)) \<and>
   flt (snd (valid_of (boundaries crossed_boundary) ! 0)) (Fin 20) \<and>
   calculate_percentile_class (Some (Fin 20)) crossed_boundary = Inr (Some ''10-25'', Some 17) \<and>
   calculate_percentile_class (Some (Fin 20)) crossed_boundary \<noteq> Inr (Some ''<0'', Some 0)"
  by (simp add: example_valid crossed_valid in_interval_def calculate_percentile_class_def
      py_nth_def str_nat.simps digit_char_def upt_conv_Cons)

text \<open>
  C9. \<open>calculate_percentile_class\<close> never raises: every list index it reads is in range.
  With fewer than two non-null anchors it returns \<open>(None, None)\<close>; so it does for a depth
  that no interval holds and that is neither above the first nor below the last anchor's
  value (a \<open>NaN\<close> depth is such a value).
\<close>

theorem classify_never_raises:
  "(\<exists>r. calculate_percentile_class depth pct_data = Inr r) \<and>
   (length (valid_of (boundaries pct_data)) < 2 \<longrightarrow>
      calculate_percentile_class depth pct_data = Inr (None, None)) \<and>
   (\<forall>d valid. depth = Some d \<and> valid = valid_of (boundaries pct_data) \<and>
      (\<forall>i. Suc i < length valid \<longrightarrow> \<not> in_interval d valid i) \<and>
      \<not> flt (snd (valid ! 0)) d \<and> \<not> flt d (snd (last valid)) \<longrightarrow>
      calculate_percentile_class depth pct_data = Inr (None, None))"
proof (intro conjI allI impI)
  show "\<exists>r. calculate_percentile_class depth pct_data = Inr r" by (rule classify_total)
next
  assume "length (valid_of (boundaries pct_data)) < 2"
  then show "calculate_percentile_class depth pct_data = Inr (None, None)" by (rule classify_few)
next
  fix d valid
  assume a: "depth = Some d \<and> valid = valid_of (boundaries pct_data) \<and>
      (\<forall>i. Suc i < length valid \<longrightarrow> \<not> in_interval d valid i) \<and>
      \<not> flt (snd (valid ! 0)) d \<and> \<not> flt d (snd (last valid))"
  show "calculate_percentile_class depth pct_data = Inr (None, None)"
  proof (cases "length valid < 2")
    case True
    with a show ?thesis using classify_few by blast
  next
    case False
    then have l: "2 \<le> length valid" by simp
    from a have dd: "depth = Some d" and v: "valid = valid_of (boundaries pct_data)"
      and ni: "\<forall>i. Suc i < length valid \<longrightarrow> \<not> in_interval d valid i"
      and e: "\<not> flt (snd (valid ! 0)) d" "\<not> flt d (snd (last valid))"
      by blast+
    show ?thesis unfolding dd classify_no_match[OF l v ni] using e by simp
  qed
qed

theorem classify_never_raises_witness:
  "length (valid_of (boundaries single_boundary)) < 2 \<and>
   calculate_percentile_class (Some (Fin 15)) single_boundary = Inr (None, None) \<and>
   \<not> flt (snd (valid_of (boundaries example_boundary) ! 0)) NaN \<and>
   \<not> flt NaN (snd (last (valid_of (boundaries example_boundary)))) \<and>
   calculate_percentile_class (Some NaN) example_boundary = Inr (None, None)"
proof -
  have a: "calculate_percentile_class (Some (Fin 15)) single_boundary = Inr (None, None)"
    using classify_never_raises[of "Some (Fin 15)" single_boundary, THEN conjunct2, THEN conjunct1]
    by (simp add: single_valid)
  have b: "calculate_percentile_class (Some NaN) example_boundary = Inr (None, None)"
    using classify_never_raises[of "Some NaN" example_boundary, THEN conjunct2, THEN conjunct2,
        rule_format, of NaN "valid_of (boundaries example_boundary)"]
    by (simp add: in_interval_def)
  from a b show ?thesis by (simp add: single_valid example_valid)
qed

section \<open>Unit conversion and column inference: properties\<close>

lemma traverse_map_Inr: "traverse (\<lambda>x. Inr (f x)) xs = Inr (map f xs)"
  by (induction xs) simp_all

lemma traverse_cell_times_Num:
  "traverse (cell_times k) (map Num xs) = Inr (map (\<lambda>x. Num (fmul x (Fin k))) xs)"
  by (induction xs) simp_all

text \<open>
  C5, as amended. A depth unit whose lower-case form is \<open>ft\<close> multiplies every depth by
  0.3048. Every other unit string, \<open>m\<close> among them, leaves the depths unchanged: no unit
  string is rejected and no error names one.
\<close>

theorem depth_unit_conversion:
  "(py_lower depth_unit = ''ft'' \<longrightarrow>
      depth_m_column depth_unit (map Num xs) =
        Inr (map (\<lambda>x. Num (fmul x (Fin (3048 / 10000)))) xs)) \<and>
   (py_lower depth_unit \<noteq> ''ft'' \<longrightarrow> depth_m_column depth_unit col = Inr col)"
  by (simp add: depth_m_column_def traverse_cell_times_Num)

theorem depth_unit_conversion_witness:
  "py_lower ''FT'' = ''ft'' \<and>
   depth_m_column ''FT'' (map Num [Fin 100]) = Inr [Num (Fin (3048 / 100))] \<and>
   py_lower ''m'' \<noteq> ''ft'' \<and>
   depth_m_column ''m'' [Num (Fin 100)] = Inr [Num (Fin 100)] \<and>
   py_lower ''furlong'' \<noteq> ''ft'' \<and>
   depth_m_column ''furlong'' [Num (Fin 100)] = Inr [Num (Fin 100)]"
  using depth_unit_conversion [of "''FT''" "[Fin 100]"]
    depth_unit_conversion [of "''m''" "[]" "[Num (Fin 100)]"]
    depth_unit_conversion [of "''furlong''" "[]" "[Num (Fin 100)]"]
  by (simp add: py_lower_def lower_char_def)

text \<open>
  The claim C5 as stated fails: with the unit \<open>furlong\<close> the conversion returns the depths
  unchanged and \<open>calculate_potential\<close> returns its statistics, with no error.
\<close>

theorem unknown_unit_counterexample:
  "depth_m_column ''furlong'' [Num (Fin 100)] = Inr [Num (Fin 100)] \<and>
   fst (calculate_potential demo_world ''wells.csv'' ''0,0,2,2'' None ''furlong'' ''Lat'' ''Lon'' None None) =
     Inr \<lparr>r_input_csv = ''wells.csv'', r_depth_column = ''2023-06-20'',
          r_depth_unit = Some ''furlong'', r_bbox = ''0,0,2,2'', r_total_points = 2,
          r_depth_m = \<lparr>stat_min = JNumber (Fin 10), stat_max = JNumber (Fin 100), stat_mean = JNumber (Fin 55)\<rparr>,
          r_dem_m = \<lparr>stat_min = JNumber (Fin 0), stat_max = JNumber (Fin 3), stat_mean = JNumber (Fin (3 / 2))\<rparr>,
          r_potential_m = \<lparr>stat_min = JNumber (Fin (- 97)), stat_max = JNumber (Fin (- 10)),
                           stat_mean = JNumber (Fin (- (107 / 2)))\<rparr>,
          r_output_csv = None\<rparr>"
  by code_simp

text \<open>
  C6. With the dated columns in file order \<open>2023-01-15\<close>, \<open>2023-06-20\<close> the depth column
  found is \<open>2023-06-20\<close>. With the same two columns in the other order it is
  \<open>2023-01-15\<close>: \<open>date_cols[-1]\<close> is the last dated column of the file, not the latest
  date, though the comment on that line says "most recent date".
\<close>

theorem depth_column_is_last_in_file_order:
  "detect_depth_col wells None ''Lat'' ''Lon'' = Inr ''2023-06-20'' \<and>
   map fst wells_unordered = [''Lat'', ''Lon'', ''Site'', ''2023-06-20'', ''2023-01-15''] \<and>
   detect_depth_col wells_unordered None ''Lat'' ''Lon'' = Inr ''2023-01-15''"
  by code_simp



text \<open>
  C8. On a table whose only well lies outside the raster no row is left; both entry
  points succeed with \<open>total_points = 0\<close>, and every statistic is \<open>round(nan, 2)\<close>, the
  float nan, which \<open>json.dumps\<close> writes as \<open>NaN\<close> and not as \<open>null\<close>. The sibling
  \<open>get_dem_at_points\<close> of 02_dem_elevation.py gives \<open>None\<close> for the same empty column.
\<close>

theorem empty_result_statistics_are_nan:
  "create_potential_dataset demo_world ''outside.csv'' ''0,0,2,2'' None ''ft'' ''Lat'' ''Lon'' 500 None None =
     (Inr \<lparr>r_input_csv = ''outside.csv'', r_depth_column = ''WaterLevel'',
           r_depth_unit = None, r_bbox = ''0,0,2,2'', r_total_points = 0,
           r_depth_m = \<lparr>stat_min = JNumber NaN, stat_max = JNumber NaN, stat_mean = JNumber NaN\<rparr>,
           r_dem_m = \<lparr>stat_min = JNumber NaN, stat_max = JNumber NaN, stat_mean = JNumber NaN\<rparr>,
           r_potential_m = \<lparr>stat_min = JNumber NaN, stat_max = JNumber NaN, stat_mean = JNumber NaN\<rparr>,
           r_output_csv = None\<rparr>, no_effects) \<and>
   fst (calculate_potential demo_world ''outside.csv'' ''0,0,2,2'' None ''ft'' ''Lat'' ''Lon'' None None) =
     Inr \<lparr>r_input_csv = ''outside.csv'', r_depth_column = ''WaterLevel'',
           r_depth_unit = Some ''ft'', r_bbox = ''0,0,2,2'', r_total_points = 0,
           r_depth_m = \<lparr>stat_min = JNumber NaN, stat_max = JNumber NaN, stat_mean = JNumber NaN\<rparr>,
           r_dem_m = \<lparr>stat_min = JNumber NaN, stat_max = JNumber NaN, stat_mean = JNumber NaN\<rparr>,
           r_potential_m = \<lparr>stat_min = JNumber NaN, stat_max = JNumber NaN, stat_mean = JNumber NaN\<rparr>,
           r_output_csv = None\<rparr> \<and>
   JNumber NaN \<noteq> JNull \<and>
   dem_statistics [NaN] = \<lparr>stat_min = JNull, stat_max = JNull, stat_mean = JNull\<rparr>"
  by code_simp

section \<open>The potential computation: properties\<close>








lemma survives_complete: "survives dem b row \<Longrightarrow> complete3 row"
  by (simp add: survives_def)









end
